theory Spec2Isabelle
  imports Complex_Main "HOL-Library.Multiset"
begin

section \<open>Put Opportunity Finder: the frontend's classification and expiration logic\<close>

text \<open>
  The development embeds the decision logic of \<^verbatim>\<open>frontend/src/App.tsx\<close>: the first-pass
  classification of a row, the promotion of the best full matches, the score symbol,
  the per-expiration display pipeline, the generator of weekly expiration dates and
  the state update of the multi-expiration fetch.

  The repository holds a second, earlier copy of the component. It assigns one of four
  classifications (best, strong, weak, neighbor) in a single pass, without looking at
  the type of the row and without a promotion step, and it computes the expiration
  dates with the getters of local time. The properties below are those of
  \<^verbatim>\<open>frontend/src/App.tsx\<close>; \<^verbatim>\<open>fetchAll\<close> is the same in both copies.

  A JavaScript \<^verbatim>\<open>number\<close> that arrives through \<^verbatim>\<open>JSON.parse\<close> is never NaN, and the
  code only compares such numbers, takes their maximum and subtracts two of them for the
  sign. On finite doubles these agree with the same operations on the rationals, so a
  number is a \<^typ>\<open>rat\<close> here (a literal too large for a double, which is read as an
  infinity, has no counterpart), and a field declared \<^verbatim>\<open>number | null\<close> or optional is
  a \<^typ>\<open>rat option\<close>: the code tests such fields with \<^verbatim>\<open>!= null\<close> and \<^verbatim>\<open>??\<close>, which
  treat \<^verbatim>\<open>null\<close> and \<^verbatim>\<open>undefined\<close> alike. Strings are byte strings in UTF-8.
\<close>

subsection \<open>Data model\<close>

datatype row_type = opportunity | neighbor

text \<open>
  The interfaces \<^verbatim>\<open>BaseOptionRow\<close>, \<^verbatim>\<open>OpportunityRow\<close>, \<^verbatim>\<open>IncompleteRow\<close> and
  \<^verbatim>\<open>ClassifiedRow\<close>, each extension as a record extension. The fields \<^verbatim>\<open>last\<close> and
  \<^verbatim>\<open>count\<close> carry a suffix.
\<close>

record BaseOptionRow =
  option_ticker :: string
  strike_price :: rat
  last_field :: "rat option"
  bid :: "rat option"
  ask :: "rat option"
  put_mid :: "rat option"
  delta :: "rat option"
  iv :: "rat option"
  greeks_source :: "string option"
  volume :: "rat option"
  open_interest :: "rat option"
  distance_to_lower_band :: "rat option"
  credit_pct :: "rat option"

record OpportunityRow = BaseOptionRow +
  meets_band :: bool
  meets_delta :: bool
  meets_credit :: bool
  type :: row_type

record IncompleteRow = BaseOptionRow +
  reason_missing :: string

record RollingResponse =
  status :: string
  ticker :: string
  expiration_date :: string
  atm_strike :: rat
  em :: rat
  spot_approx :: rat
  lower_band :: rat
  delta_range :: "rat \<times> rat"
  credit_pct_range :: "rat \<times> rat"
  count_field :: rat
  opportunities :: "OpportunityRow list"
  neighbors :: "OpportunityRow list"
  incomplete :: "IncompleteRow list"

datatype Classification =
  Best
  | Opportunity
  | Candidate_strong
  | Candidate
  | Neighbor

record ClassifiedRow = OpportunityRow +
  classification :: Classification
  score :: string
  rowClass :: string

subsection \<open>Helpers\<close>

text \<open>\<^verbatim>\<open>classifyRow\<close>: the checks in the order of the source.\<close>

definition classifyRow :: "OpportunityRow \<Rightarrow> Classification" where
  "classifyRow row =
     (if type row = neighbor then Neighbor
      else if \<not> meets_band row then Neighbor
      else if meets_delta row \<and> meets_credit row then Opportunity
      else if meets_delta row \<noteq> meets_credit row then Candidate_strong
      else Candidate)"

text \<open>The two score symbols, U+2605 and U+2713, in UTF-8.\<close>

definition star_symbol :: string where
  "star_symbol = [CHR 0xE2, CHR 0x98, CHR 0x85]"

definition check_symbol :: string where
  "check_symbol = [CHR 0xE2, CHR 0x9C, CHR 0x93]"

fun scoreForClassification :: "Classification \<Rightarrow> string" where
  "scoreForClassification Best = star_symbol"
| "scoreForClassification Opportunity = check_symbol"
| "scoreForClassification c = ''''"

fun rowClassForClassification :: "Classification \<Rightarrow> string" where
  "rowClassForClassification Best = ''row-best''"
| "rowClassForClassification Opportunity = ''row-best''"
| "rowClassForClassification Candidate_strong = ''row-opportunity''"
| "rowClassForClassification Candidate = ''row-candidate''"
| "rowClassForClassification Neighbor = ''row-neighbor''"

subsection \<open>The display pipeline of one expiration\<close>

text \<open>
  The body of the callback of \<^verbatim>\<open>records.map\<close> in the render function, one definition
  per \<^verbatim>\<open>const\<close>. \<^verbatim>\<open>Array.prototype.sort\<close> is stable and is called with the comparator
  \<^verbatim>\<open>a.strike_price - b.strike_price\<close>, whose sign is that of the comparison of the two
  strikes: it is the stable sort by the key \<^verbatim>\<open>strike_price\<close>.
\<close>

definition baseRows :: "bool \<Rightarrow> RollingResponse \<Rightarrow> OpportunityRow list" where
  "baseRows showNeighbors data =
     opportunities data @ (if showNeighbors then neighbors data else [])"

definition sorted_rows :: "bool \<Rightarrow> RollingResponse \<Rightarrow> OpportunityRow list" where
  "sorted_rows showNeighbors data = sort_key strike_price (baseRows showNeighbors data)"

definition classified :: "OpportunityRow \<Rightarrow> Classification \<Rightarrow> string \<Rightarrow> string \<Rightarrow> ClassifiedRow" where
  "classified row c s rc =
     OpportunityRow.extend row (ClassifiedRow.fields c s rc)"

definition prelim :: "bool \<Rightarrow> RollingResponse \<Rightarrow> ClassifiedRow list" where
  "prelim showNeighbors data =
     map (\<lambda>row. classified row (classifyRow row) '''' '''') (sorted_rows showNeighbors data)"

definition fullMatches :: "ClassifiedRow list \<Rightarrow> ClassifiedRow list" where
  "fullMatches rows =
     filter (\<lambda>r. classification r = Opportunity \<and> credit_pct r \<noteq> None) rows"

text \<open>
  \<^verbatim>\<open>maxCredit\<close> is \<^verbatim>\<open>null\<close> when there is no full match and otherwise \<^verbatim>\<open>Math.max\<close> of
  the credits, an absent credit read as 0 by \<^verbatim>\<open>?? 0\<close>.
\<close>

definition credit_or_zero :: "ClassifiedRow \<Rightarrow> rat" where
  "credit_or_zero r = (case credit_pct r of None \<Rightarrow> 0 | Some c \<Rightarrow> c)"

definition maxCredit :: "ClassifiedRow list \<Rightarrow> rat option" where
  "maxCredit rows =
     (case map credit_or_zero (fullMatches rows) of
        [] \<Rightarrow> None
      | c # cs \<Rightarrow> Some (fold max cs c))"

definition promote :: "rat option \<Rightarrow> ClassifiedRow \<Rightarrow> ClassifiedRow" where
  "promote mc row =
     (let c = (if classification row = Opportunity \<and> mc \<noteq> None
                  \<and> credit_pct row \<noteq> None \<and> credit_pct row = mc
               then Best else classification row)
      in row\<lparr>classification := c,
             score := scoreForClassification c,
             rowClass := rowClassForClassification c\<rparr>)"

definition rowsWithScore :: "bool \<Rightarrow> RollingResponse \<Rightarrow> ClassifiedRow list" where
  "rowsWithScore showNeighbors data =
     (let p = prelim showNeighbors data in map (promote (maxCredit p)) p)"

definition hasRows :: "bool \<Rightarrow> RollingResponse \<Rightarrow> bool" where
  "hasRows showNeighbors data = (length (rowsWithScore showNeighbors data) > 0)"

definition incompleteSorted :: "RollingResponse \<Rightarrow> IncompleteRow list" where
  "incompleteSorted data = sort_key strike_price (incomplete data)"

definition hasIncomplete :: "RollingResponse \<Rightarrow> bool" where
  "hasIncomplete data = (length (incompleteSorted data) > 0)"

subsection \<open>JavaScript numbers, strings and dates used by the expiration generator\<close>

text \<open>
  \<^verbatim>\<open>buildExpirationList\<close> applies \<^verbatim>\<open>Number\<close> to pieces of an arbitrary string, so its
  numbers can be NaN or infinite; a finite one is a rational. \<^verbatim>\<open>Number\<close> itself is a
  parameter \<open>num\<close> of the model, so that every theorem holds for whatever \<^verbatim>\<open>Number\<close>
  returns. The subtraction \<^verbatim>\<open>m - 1\<close> is exact here; on doubles it rounds, which is
  visible only for \<open>0 < m < 2\<^sup>-\<^sup>5\<^sup>3\<close>.
\<close>

datatype jsnum = NaN | PosInfinity | NegInfinity | Finite rat

text \<open>\<^verbatim>\<open>!y\<close> holds for NaN and for zero.\<close>

definition truthy :: "jsnum \<Rightarrow> bool" where
  "truthy n = (case n of NaN \<Rightarrow> False | Finite r \<Rightarrow> r \<noteq> 0 | _ \<Rightarrow> True)"

definition is_positive :: "jsnum \<Rightarrow> bool" where
  "is_positive n = (case n of Finite r \<Rightarrow> 0 < r | PosInfinity \<Rightarrow> True | _ \<Rightarrow> False)"

definition is_negative :: "jsnum \<Rightarrow> bool" where
  "is_negative n = (case n of Finite r \<Rightarrow> r < 0 | NegInfinity \<Rightarrow> True | _ \<Rightarrow> False)"

definition minus_one :: "jsnum \<Rightarrow> jsnum" where
  "minus_one n = (case n of Finite r \<Rightarrow> Finite (r - 1) | _ \<Rightarrow> n)"

definition ToIntegerOrInfinity :: "rat \<Rightarrow> int" where
  "ToIntegerOrInfinity r = (if 0 \<le> r then \<lfloor>r\<rfloor> else \<lceil>r\<rceil>)"

text \<open>\<^verbatim>\<open>base.split("-")\<close>: the pieces between the separators, empty pieces included.\<close>

fun split_from :: "char \<Rightarrow> string \<Rightarrow> string \<Rightarrow> string list" where
  "split_from c acc [] = [rev acc]"
| "split_from c acc (x # xs) =
     (if x = c then rev acc # split_from c [] xs else split_from c (x # acc) xs)"

definition split :: "string \<Rightarrow> char \<Rightarrow> string list" where
  "split s c = split_from c [] s"

text \<open>
  The date arithmetic of ECMAScript (ECMA-262, Date objects). A time value is a number
  of milliseconds since 1970-01-01 UTC, or NaN: an \<^typ>\<open>int option\<close>.
\<close>

definition msPerDay :: int where
  "msPerDay = 86400000"

definition Day :: "int \<Rightarrow> int" where
  "Day t = t div msPerDay"

definition TimeWithinDay :: "int \<Rightarrow> int" where
  "TimeWithinDay t = t mod msPerDay"

definition DaysInYear :: "int \<Rightarrow> int" where
  "DaysInYear y =
     (if y mod 4 \<noteq> 0 then 365
      else if y mod 100 \<noteq> 0 then 366
      else if y mod 400 \<noteq> 0 then 365
      else 366)"

definition DayFromYear :: "int \<Rightarrow> int" where
  "DayFromYear y =
     365 * (y - 1970) + (y - 1969) div 4 - (y - 1901) div 100 + (y - 1601) div 400"

text \<open>
  \<^verbatim>\<open>YearFromTime(t)\<close> is the largest year \<open>y\<close> with \<open>DayFromYear y \<le> Day t\<close>. It is
  found by counting up from a year that is not after it (lemmas \<open>year_estimate_le\<close>
  and \<open>YearFromTime_bounds\<close> below).
\<close>

function year_search :: "int \<Rightarrow> int \<Rightarrow> int" where
  "year_search y day =
     (if DayFromYear (y + 1) \<le> day then year_search (y + 1) day else y)"
  by pat_completeness auto
termination
proof (relation "measure (\<lambda>(y, day). nat (day - DayFromYear y))")
  show "wf (measure (\<lambda>(y, day). nat (day - DayFromYear y)))" by simp
next
  fix y day :: int
  assume a: "DayFromYear (y + 1) \<le> day"
  have p: "(y - 1969) div 4 \<le> (y + 1 - 1969) div 4"
    by (rule zdiv_mono1) simp_all
  have "(y + 1 - 1901) div 100 \<le> (y - 1901 + 100) div 100"
    by (rule zdiv_mono1) simp_all
  then have q: "(y + 1 - 1901) div 100 \<le> (y - 1901) div 100 + 1"
    by simp
  have r: "(y - 1601) div 400 \<le> (y + 1 - 1601) div 400"
    by (rule zdiv_mono1) simp_all
  have "DayFromYear y < DayFromYear (y + 1)"
    unfolding DayFromYear_def using p q r by simp
  with a show "((y + 1, day), (y, day)) \<in> measure (\<lambda>(y, day). nat (day - DayFromYear y))"
    by simp
qed

definition year_estimate :: "int \<Rightarrow> int" where
  "year_estimate day = 1970 + (if 0 \<le> day then day div 366 else day div 365 - 1)"

definition YearFromTime :: "int \<Rightarrow> int" where
  "YearFromTime t = year_search (year_estimate (Day t)) (Day t)"

definition InLeapYear :: "int \<Rightarrow> int" where
  "InLeapYear t = (if DaysInYear (YearFromTime t) = 366 then 1 else 0)"

definition DayWithinYear :: "int \<Rightarrow> int" where
  "DayWithinYear t = Day t - DayFromYear (YearFromTime t)"

definition MonthFromTime :: "int \<Rightarrow> int" where
  "MonthFromTime t =
     (let d = DayWithinYear t; l = InLeapYear t in
      if d < 31 then 0
      else if d < 59 + l then 1
      else if d < 90 + l then 2
      else if d < 120 + l then 3
      else if d < 151 + l then 4
      else if d < 181 + l then 5
      else if d < 212 + l then 6
      else if d < 243 + l then 7
      else if d < 273 + l then 8
      else if d < 304 + l then 9
      else if d < 334 + l then 10
      else 11)"

text \<open>The day within the year on which month \<open>mn\<close> (0 to 11) starts.\<close>

definition month_start :: "int \<Rightarrow> int \<Rightarrow> int" where
  "month_start mn l =
     (if mn = 0 then 0
      else if mn = 1 then 31
      else if mn = 2 then 59 + l
      else if mn = 3 then 90 + l
      else if mn = 4 then 120 + l
      else if mn = 5 then 151 + l
      else if mn = 6 then 181 + l
      else if mn = 7 then 212 + l
      else if mn = 8 then 243 + l
      else if mn = 9 then 273 + l
      else if mn = 10 then 304 + l
      else 334 + l)"

definition DateFromTime :: "int \<Rightarrow> int" where
  "DateFromTime t = DayWithinYear t - month_start (MonthFromTime t) (InLeapYear t) + 1"

text \<open>
  \<^verbatim>\<open>MakeDay\<close>: the day number of the first day of month \<open>mn\<close> of year \<open>ym\<close>, plus
  \<open>dt - 1\<close>; NaN when an argument is not finite.
\<close>

definition MakeDay :: "jsnum \<Rightarrow> jsnum \<Rightarrow> jsnum \<Rightarrow> int option" where
  "MakeDay year month date =
     (case (year, month, date) of
        (Finite yr, Finite mr, Finite dr) \<Rightarrow>
          (let y = ToIntegerOrInfinity yr;
               m = ToIntegerOrInfinity mr;
               dt = ToIntegerOrInfinity dr;
               ym = y + m div 12;
               mn = m mod 12
           in Some (DayFromYear ym
                    + month_start mn (if DaysInYear ym = 366 then 1 else 0)
                    + dt - 1))
      | _ \<Rightarrow> None)"

definition MakeDate :: "int option \<Rightarrow> int \<Rightarrow> int option" where
  "MakeDate day time = map_option (\<lambda>d. d * msPerDay + time) day"

definition TimeClip :: "int option \<Rightarrow> int option" where
  "TimeClip time =
     (case time of
        None \<Rightarrow> None
      | Some t \<Rightarrow> if \<bar>t\<bar> > 8640000000000000 then None else Some t)"

definition MakeFullYear :: "jsnum \<Rightarrow> jsnum" where
  "MakeFullYear year =
     (case year of
        Finite r \<Rightarrow>
          (let truncated = ToIntegerOrInfinity r in
           if 0 \<le> truncated \<and> truncated \<le> 99 then Finite (of_int (1900 + truncated))
           else year)
      | _ \<Rightarrow> year)"

definition Date_UTC :: "jsnum \<Rightarrow> jsnum \<Rightarrow> jsnum \<Rightarrow> int option" where
  "Date_UTC year month date =
     TimeClip (MakeDate (MakeDay (MakeFullYear year) month date) 0)"

definition getUTCFullYear :: "int option \<Rightarrow> int option" where
  "getUTCFullYear tv = map_option YearFromTime tv"

definition getUTCMonth :: "int option \<Rightarrow> int option" where
  "getUTCMonth tv = map_option MonthFromTime tv"

definition getUTCDate :: "int option \<Rightarrow> int option" where
  "getUTCDate tv = map_option DateFromTime tv"

text \<open>\<^verbatim>\<open>setUTCDate(dt)\<close> with \<open>dt\<close> an integer or NaN; the result is the new time value.\<close>

definition setUTCDate :: "int option \<Rightarrow> int option \<Rightarrow> int option" where
  "setUTCDate tv dt =
     (case tv of
        None \<Rightarrow> None
      | Some t \<Rightarrow>
          TimeClip (MakeDate
            (MakeDay (Finite (of_int (YearFromTime t))) (Finite (of_int (MonthFromTime t)))
               (case dt of None \<Rightarrow> NaN | Some d \<Rightarrow> Finite (of_int d)))
            (TimeWithinDay t)))"

text \<open>The decimal string of an integer, and of a number that may be NaN.\<close>

definition digit_char :: "nat \<Rightarrow> char" where
  "digit_char n = ''0123456789'' ! n"

fun string_of_nat :: "nat \<Rightarrow> string" where
  "string_of_nat n =
     (if n < 10 then [digit_char n] else string_of_nat (n div 10) @ [digit_char (n mod 10)])"

declare string_of_nat.simps [simp del]

definition string_of_int :: "int \<Rightarrow> string" where
  "string_of_int i = (if i < 0 then CHR ''-'' # string_of_nat (nat (- i)) else string_of_nat (nat i))"

definition String :: "int option \<Rightarrow> string" where
  "String n = (case n of None \<Rightarrow> ''NaN'' | Some i \<Rightarrow> string_of_int i)"

definition padStart :: "string \<Rightarrow> nat \<Rightarrow> char \<Rightarrow> string" where
  "padStart s n c = replicate (n - length s) c @ s"

subsection \<open>The expiration generator\<close>

text \<open>
  \<^verbatim>\<open>buildExpirationList\<close>. The count is a natural number; each of the three loops
  pushes one string per index from 0 up to the count.
\<close>

definition expiration_at :: "int option \<Rightarrow> nat \<Rightarrow> string" where
  "expiration_at baseDate i =
     (let dt = setUTCDate baseDate (map_option (\<lambda>d. d + 7 * int i) (getUTCDate baseDate));
          yyyy = getUTCFullYear dt;
          mm = padStart (String (map_option (\<lambda>m. m + 1) (getUTCMonth dt))) 2 CHR ''0'';
          dd = padStart (String (getUTCDate dt)) 2 CHR ''0''
      in String yyyy @ ''-'' @ mm @ ''-'' @ dd)"

definition buildExpirationList :: "(string \<Rightarrow> jsnum) \<Rightarrow> string \<Rightarrow> nat \<Rightarrow> string list" where
  "buildExpirationList num base cnt =
     (case split base CHR ''-'' of
        [yStr, mStr, dStr] \<Rightarrow>
          (let y = num yStr; m = num mStr; d = num dStr in
           if \<not> truthy y \<or> \<not> truthy m \<or> \<not> truthy d then map (\<lambda>i. base) [0..<cnt]
           else
             (let baseDate = Date_UTC y (minus_one m) d
              in map (\<lambda>i. expiration_at baseDate i) [0..<cnt]))
      | _ \<Rightarrow> map (\<lambda>i. base) [0..<cnt])"

text \<open>
  An instance of \<open>num\<close> for examples: \<^verbatim>\<open>Number\<close> on a string of one to fifteen decimal
  digits. On every other string it answers NaN, which is not what \<^verbatim>\<open>Number\<close> does on
  all of them; no theorem is stated of it beyond the examples.
\<close>

definition is_digit :: "char \<Rightarrow> bool" where
  "is_digit c = (c \<in> set ''0123456789'')"

definition digit_of :: "char \<Rightarrow> nat" where
  "digit_of c = length (takeWhile (\<lambda>x. x \<noteq> c) ''0123456789'')"

definition digits_value :: "string \<Rightarrow> nat" where
  "digits_value s = foldl (\<lambda>a c. 10 * a + digit_of c) 0 s"

definition decimalNumber :: "string \<Rightarrow> jsnum" where
  "decimalNumber s =
     (if s \<noteq> [] \<and> length s \<le> 15 \<and> list_all is_digit s
      then Finite (of_nat (digits_value s)) else NaN)"





fun date_string :: "int \<times> int \<times> int \<Rightarrow> string" where
  "date_string (y, m, d) =
     string_of_int y @ ''-'' @ padStart (string_of_int m) 2 CHR ''0''
       @ ''-'' @ padStart (string_of_int d) 2 CHR ''0''"

subsection \<open>Application state and the multi-expiration fetch\<close>

datatype Profile = Conservative | Normal | Aggressive | Custom

text \<open>
  \<^verbatim>\<open>QueryParams\<close>; its \<^verbatim>\<open>ticker\<close> carries a suffix, the response has a field of that
  name.
\<close>

record QueryParams =
  ticker_q :: string
  expiration :: string
  deltaMin :: rat
  deltaMax :: rat
  bandWindow :: rat
  creditMin :: rat
  creditMax :: rat
  showNeighbors :: bool
  numExpirations :: nat

text \<open>
  The state variables of the component \<^verbatim>\<open>App\<close>. The nine variables of the control
  panel are kept together as \<open>controls\<close>: they are the nine fields of the query that
  \<^verbatim>\<open>fetchAll\<close> and \<^verbatim>\<open>handleLoadClick\<close> build from them. \<open>lastUpdated\<close> holds the time
  value of \<^verbatim>\<open>new Date()\<close>.
\<close>

record AppState =
  controls :: QueryParams
  liveUpdate :: bool
  profile :: Profile
  dataProvider :: "string option"
  records :: "RollingResponse list"
  loading :: bool
  error :: "string option"
  lastUpdated :: "int option"
  lastQuery :: "QueryParams option"
  countdown :: "rat option"
  expandedIncomplete :: "string option"

text \<open>
  What one request does, as the world decides it: \<^verbatim>\<open>fetch\<close> rejects, or it answers with
  a status and a body whose \<^verbatim>\<open>json()\<close> rejects or yields a response. A rejection carries
  the \<^verbatim>\<open>message\<close> of its reason, if it has one.
\<close>

datatype body = BodyRejected "string option" | BodyJson RollingResponse

datatype fetch_outcome = FetchRejected "string option" | Response bool nat body

text \<open>The callback of \<^verbatim>\<open>expirations.map\<close>: the promise is rejected (\<open>Inl\<close>) or fulfilled.\<close>

definition request_outcome :: "fetch_outcome \<Rightarrow> string option + RollingResponse" where
  "request_outcome r =
     (case r of
        FetchRejected msg \<Rightarrow> Inl msg
      | Response ok st b \<Rightarrow>
          if \<not> ok then Inl (Some (''HTTP '' @ string_of_nat st))
          else (case b of BodyRejected msg \<Rightarrow> Inl msg | BodyJson json \<Rightarrow> Inr json))"

text \<open>
  \<^verbatim>\<open>Promise.all\<close> over promises that settle at the given instants: it is rejected with
  the reason of the promise rejected first, and otherwise fulfilled with all values in
  the order of the promises.
\<close>

definition rejections :: "(nat \<times> ('e + 'a)) list \<Rightarrow> (nat \<times> 'e) list" where
  "rejections ps = concat (map (\<lambda>(t, r). case r of Inl e \<Rightarrow> [(t, e)] | Inr v \<Rightarrow> []) ps)"

definition fulfilments :: "(nat \<times> ('e + 'a)) list \<Rightarrow> 'a list" where
  "fulfilments ps = concat (map (\<lambda>(t, r). case r of Inl e \<Rightarrow> [] | Inr v \<Rightarrow> [v]) ps)"

definition Promise_all :: "(nat \<times> ('e + 'a)) list \<Rightarrow> 'e + 'a list" where
  "Promise_all ps =
     (case rejections ps of
        [] \<Rightarrow> Inr (fulfilments ps)
      | r # rs \<Rightarrow> Inl (snd (fold (\<lambda>x first. if fst x < fst first then x else first) rs r)))"

text \<open>
  \<^verbatim>\<open>fetchAll\<close>. The world answers each request, given the effective query and the
  expiration date, with the instant at which the promise settles and its outcome;
  \<open>now\<close> is the clock read by \<^verbatim>\<open>new Date()\<close>.
\<close>

definition effective_query :: "AppState \<Rightarrow> QueryParams option \<Rightarrow> QueryParams" where
  "effective_query st params =
     (case params of
        Some p \<Rightarrow> p
      | None \<Rightarrow> (case lastQuery st of Some q \<Rightarrow> q | None \<Rightarrow> controls st))"

definition requested_expirations :: "(string \<Rightarrow> jsnum) \<Rightarrow> QueryParams \<Rightarrow> string list" where
  "requested_expirations num effective =
     buildExpirationList num (expiration effective) (numExpirations effective)"

definition fetchAll ::
  "(string \<Rightarrow> jsnum) \<Rightarrow> (QueryParams \<Rightarrow> string \<Rightarrow> nat \<times> fetch_outcome) \<Rightarrow> int
     \<Rightarrow> AppState \<Rightarrow> QueryParams option \<Rightarrow> AppState" where
  "fetchAll num world now st params =
     (let effective = effective_query st params;
          st1 = st\<lparr>lastQuery := Some effective, loading := True, error := None\<rparr>;
          expirations = requested_expirations num effective;
          promises = map (\<lambda>expDate. map_prod id request_outcome (world effective expDate)) expirations
      in (case Promise_all promises of
            Inr results \<Rightarrow>
              st1\<lparr>records := results, lastUpdated := Some now, loading := False\<rparr>
          | Inl e \<Rightarrow>
              st1\<lparr>error := Some (case e of Some msg \<Rightarrow> msg | None \<Rightarrow> ''Failed to fetch''),
                  records := [], loading := False\<rparr>))"

text \<open>
  What the render function derives for one stored record: the rows of the main table,
  the rows of the incomplete table and whether that table is expanded.
\<close>

definition table_rows :: "AppState \<Rightarrow> RollingResponse \<Rightarrow> ClassifiedRow list" where
  "table_rows st data = rowsWithScore (showNeighbors (controls st)) data"

definition isExpanded :: "AppState \<Rightarrow> RollingResponse \<Rightarrow> bool" where
  "isExpanded st data = (expandedIncomplete st = Some (expiration_date data))"

definition expiration_block ::
  "AppState \<Rightarrow> RollingResponse \<Rightarrow> ClassifiedRow list \<times> IncompleteRow list \<times> bool" where
  "expiration_block st data = (table_rows st data, incompleteSorted data, isExpanded st data)"

subsection \<open>Sample data\<close>

definition sample_row ::
  "string \<Rightarrow> rat \<Rightarrow> rat option \<Rightarrow> bool \<Rightarrow> bool \<Rightarrow> bool \<Rightarrow> row_type \<Rightarrow> OpportunityRow" where
  "sample_row name strike credit b d c t =
     \<lparr>option_ticker = name, strike_price = strike, last_field = None, bid = None,
      ask = None, put_mid = None, delta = None, iv = None, greeks_source = None,
      volume = None, open_interest = None, distance_to_lower_band = None,
      credit_pct = credit, meets_band = b, meets_delta = d, meets_credit = c, type = t\<rparr>"

definition sample_incomplete :: "string \<Rightarrow> rat \<Rightarrow> IncompleteRow" where
  "sample_incomplete name strike =
     \<lparr>option_ticker = name, strike_price = strike, last_field = None, bid = None,
      ask = None, put_mid = None, delta = None, iv = None, greeks_source = None,
      volume = None, open_interest = None, distance_to_lower_band = None,
      credit_pct = None, reason_missing = ''missing delta''\<rparr>"

definition sample_response ::
  "string \<Rightarrow> OpportunityRow list \<Rightarrow> OpportunityRow list \<Rightarrow> IncompleteRow list \<Rightarrow> RollingResponse" where
  "sample_response date opps neighs incs =
     \<lparr>status = ''ok'', ticker = ''AAPL'', expiration_date = date, atm_strike = 100, em = 5,
      spot_approx = 100, lower_band = 95, delta_range = (1 / 10, 3 / 10),
      credit_pct_range = (7 / 1000, 2 / 100), count_field = of_nat (length opps),
      opportunities = opps, neighbors = neighs, incomplete = incs\<rparr>"

definition sample_query :: QueryParams where
  "sample_query =
     \<lparr>ticker_q = ''AAPL'', expiration = ''2025-11-28'', deltaMin = 1 / 10, deltaMax = 3 / 10,
      bandWindow = 1, creditMin = 7 / 1000, creditMax = 2 / 100, showNeighbors = True,
      numExpirations = 3\<rparr>"

definition sample_state :: AppState where
  "sample_state =
     \<lparr>controls = sample_query, liveUpdate = False, profile = Normal, dataProvider = None,
      records = [sample_response ''2025-11-21'' [] [] []], loading = False, error = None,
      lastUpdated = None, lastQuery = None, countdown = None, expandedIncomplete = None\<rparr>"

text \<open>A world in which the request for the second date is answered with status 500.\<close>

definition sample_world :: "QueryParams \<Rightarrow> string \<Rightarrow> nat \<times> fetch_outcome" where
  "sample_world q expDate =
     (if expDate = ''2025-12-05'' then (2, Response False 500 (BodyRejected None))
      else (1, Response True 200 (BodyJson (sample_response expDate [] [] []))))"

text \<open>A chain with two full matches tied at the highest credit.\<close>

definition sample_chain :: RollingResponse where
  "sample_chain =
     sample_response ''2025-11-28''
       [sample_row ''A'' 96 (Some (12 / 1000)) True True True opportunity,
        sample_row ''B'' 94 (Some (12 / 1000)) True True True opportunity,
        sample_row ''C'' 95 (Some (8 / 1000)) True True True opportunity,
        sample_row ''E'' 97 (Some (20 / 1000)) True True False opportunity,
        sample_row ''F'' 98 (Some (12 / 1000)) False True True opportunity]
       [sample_row ''N'' 93 (Some (12 / 1000)) True True True neighbor]
       [sample_incomplete ''I1'' 99, sample_incomplete ''I2'' 92]"

section \<open>Properties\<close>

subsection \<open>Auxiliary facts about the pipeline\<close>

lemma classified_simps [simp]:
  "classification (classified row c s rc) = c"
  "score (classified row c s rc) = s"
  "rowClass (classified row c s rc) = rc"
  "type (classified row c s rc) = type row"
  "meets_band (classified row c s rc) = meets_band row"
  "meets_delta (classified row c s rc) = meets_delta row"
  "meets_credit (classified row c s rc) = meets_credit row"
  "credit_pct (classified row c s rc) = credit_pct row"
  "strike_price (classified row c s rc) = strike_price row"
  "option_ticker (classified row c s rc) = option_ticker row"
  by (simp_all add: classified_def OpportunityRow.defs ClassifiedRow.defs BaseOptionRow.defs)

lemma classifyRow_not_Best: "classifyRow row \<noteq> Best"
  by (simp add: classifyRow_def)

lemma classifyRow_Opportunity:
  "classifyRow row = Opportunity \<longleftrightarrow>
     type row = opportunity \<and> meets_band row \<and> meets_delta row \<and> meets_credit row"
  by (cases "type row") (auto simp: classifyRow_def)

lemma promote_simps [simp]:
  "type (promote mc r) = type r"
  "meets_band (promote mc r) = meets_band r"
  "meets_delta (promote mc r) = meets_delta r"
  "meets_credit (promote mc r) = meets_credit r"
  "credit_pct (promote mc r) = credit_pct r"
  "strike_price (promote mc r) = strike_price r"
  "option_ticker (promote mc r) = option_ticker r"
  by (simp_all add: promote_def Let_def)

lemma promote_classification:
  "classification (promote mc r) =
     (if classification r = Opportunity \<and> mc \<noteq> None \<and> credit_pct r = mc then Best
      else classification r)"
  by (auto simp: promote_def Let_def)

lemma promote_score:
  "score (promote mc r) = scoreForClassification (classification (promote mc r))"
  by (simp add: promote_def Let_def)

lemma prelim_length: "length (prelim sn data) = length (baseRows sn data)"
  by (simp add: prelim_def sorted_rows_def)

lemma rowsWithScore_length: "length (rowsWithScore sn data) = length (prelim sn data)"
  by (simp add: rowsWithScore_def Let_def)

lemma rowsWithScore_nth:
  "i < length (prelim sn data) \<Longrightarrow>
     rowsWithScore sn data ! i = promote (maxCredit (prelim sn data)) (prelim sn data ! i)"
  by (simp add: rowsWithScore_def Let_def)

lemma prelim_member:
  assumes "q \<in> set (prelim sn data)"
  shows "classification q \<noteq> Best"
    and "classification q = Opportunity \<Longrightarrow>
           type q = opportunity \<and> meets_band q \<and> meets_delta q \<and> meets_credit q"
proof -
  from assms obtain row where q: "q = classified row (classifyRow row) [] []"
    by (auto simp: prelim_def)
  show "classification q \<noteq> Best" by (simp add: q classifyRow_not_Best)
  show "classification q = Opportunity \<Longrightarrow>
           type q = opportunity \<and> meets_band q \<and> meets_delta q \<and> meets_credit q"
    by (simp add: q classifyRow_Opportunity)
qed

lemma fullMatches_member:
  "q \<in> set (fullMatches p) \<longleftrightarrow>
     q \<in> set p \<and> classification q = Opportunity \<and> credit_pct q \<noteq> None"
  by (auto simp: fullMatches_def)

lemma maxCredit_None: "maxCredit p = None \<longleftrightarrow> fullMatches p = []"
  by (cases "fullMatches p") (simp_all add: maxCredit_def)

lemma maxCredit_Some:
  assumes "maxCredit p = Some m"
  shows "m \<in> credit_or_zero ` set (fullMatches p)"
    and "\<And>q. q \<in> set (fullMatches p) \<Longrightarrow> credit_or_zero q \<le> m"
proof -
  from assms obtain c cs where cs: "map credit_or_zero (fullMatches p) = c # cs"
    and m: "m = fold max cs c"
    by (auto simp: maxCredit_def split: list.splits)
  have mx: "m = Max (set (c # cs))" by (simp only: m Max.set_eq_fold)
  have img: "credit_or_zero ` set (fullMatches p) = set (c # cs)"
    using cs by (metis set_map)
  have "Max (set (c # cs)) \<in> set (c # cs)" by (rule Max_in) simp_all
  then show "m \<in> credit_or_zero ` set (fullMatches p)" by (simp only: mx img)
  fix q assume "q \<in> set (fullMatches p)"
  then have "credit_or_zero q \<in> set (c # cs)" using img by blast
  then have "credit_or_zero q \<le> Max (set (c # cs))" by (intro Max_ge) simp_all
  then show "credit_or_zero q \<le> m" by (simp only: mx)
qed

lemma maxCredit_None_iff:
  "maxCredit p = None \<longleftrightarrow>
     (\<forall>q \<in> set p. classification q = Opportunity \<longrightarrow> credit_pct q = None)"
proof -
  have "fullMatches p = [] \<longleftrightarrow> (\<forall>q \<in> set p. \<not> (classification q = Opportunity \<and> credit_pct q \<noteq> None))"
    by (simp add: fullMatches_def filter_empty_conv)
  then show ?thesis by (auto simp: maxCredit_None)
qed

lemma maxCredit_is_max:
  assumes "maxCredit p = Some m"
  shows "\<exists>q \<in> set p. classification q = Opportunity \<and> credit_pct q = Some m"
    and "\<And>q c. q \<in> set p \<Longrightarrow> classification q = Opportunity \<Longrightarrow> credit_pct q = Some c \<Longrightarrow> c \<le> m"
proof -
  from maxCredit_Some(1)[OF assms] obtain q where q: "q \<in> set (fullMatches p)"
    and qm: "m = credit_or_zero q" by blast
  from q have "q \<in> set p" "classification q = Opportunity" "credit_pct q \<noteq> None"
    by (simp_all add: fullMatches_member)
  moreover then have "credit_pct q = Some m" using qm by (auto simp: credit_or_zero_def)
  ultimately show "\<exists>q \<in> set p. classification q = Opportunity \<and> credit_pct q = Some m" by blast
  fix q c assume a: "q \<in> set p" "classification q = Opportunity" "credit_pct q = Some c"
  then have "q \<in> set (fullMatches p)" by (simp add: fullMatches_member)
  from maxCredit_Some(2)[OF assms this] show "c \<le> m" using a by (simp add: credit_or_zero_def)
qed

lemma sample_classes:
  "map classification (prelim True sample_chain)
     = [Neighbor, Opportunity, Opportunity, Opportunity, Candidate_strong, Neighbor]"
  "map classification (rowsWithScore True sample_chain)
     = [Neighbor, Best, Opportunity, Best, Candidate_strong, Neighbor]"
  "map score (rowsWithScore True sample_chain)
     = [[], star_symbol, check_symbol, star_symbol, [], []]"
  "map strike_price (rowsWithScore True sample_chain) = [93, 94, 95, 96, 97, 98]"
  "map credit_pct (prelim True sample_chain)
     = [Some (3 / 250), Some (3 / 250), Some (1 / 125), Some (3 / 250), Some (1 / 50), Some (3 / 250)]"
  "maxCredit (prelim True sample_chain) = Some (3 / 250)"
  by (simp_all add: rowsWithScore_def prelim_def sorted_rows_def baseRows_def sample_chain_def
      sample_response_def sample_row_def classifyRow_def maxCredit_def fullMatches_def
      credit_or_zero_def promote_def Let_def del: not_None_eq)

lemma sample_nth:
  "length (prelim True sample_chain) = 6"
  "classification (prelim True sample_chain ! 1) = Opportunity"
  "credit_pct (prelim True sample_chain ! 1) = Some (3 / 250)"
  "classification (rowsWithScore True sample_chain ! 3) = Best"
proof -
  have l: "length (prelim True sample_chain) = length (map classification (prelim True sample_chain))"
    by simp
  show len: "length (prelim True sample_chain) = 6" unfolding l sample_classes(1) by simp
  have "classification (prelim True sample_chain ! 1) = map classification (prelim True sample_chain) ! 1"
    using len by simp
  then show "classification (prelim True sample_chain ! 1) = Opportunity"
    unfolding sample_classes(1) by simp
  have "credit_pct (prelim True sample_chain ! 1) = map credit_pct (prelim True sample_chain) ! 1"
    using len by simp
  then show "credit_pct (prelim True sample_chain ! 1) = Some (3 / 250)"
    unfolding sample_classes(5) by simp
  have "classification (rowsWithScore True sample_chain ! 3) = map classification (rowsWithScore True sample_chain) ! 3"
    using len by (simp add: rowsWithScore_length)
  then show "classification (rowsWithScore True sample_chain ! 3) = Best"
    unfolding sample_classes(2) by simp
qed



lemma symbol_facts:
  "star_symbol \<noteq> check_symbol" "star_symbol \<noteq> []" "check_symbol \<noteq> []"
  by (simp_all add: star_symbol_def check_symbol_def)

subsection \<open>First-pass classification\<close>

text \<open>
  C2. The first-pass classification sends every row of type \<^verbatim>\<open>neighbor\<close> to the
  classification \<^verbatim>\<open>neighbor\<close>, whatever its three flags are, and it also sends every row
  whose \<^verbatim>\<open>meets_band\<close> flag is false to \<^verbatim>\<open>neighbor\<close>.
\<close>

theorem classifyRow_neighbor:
  "(type row = neighbor \<longrightarrow> classifyRow row = Neighbor)
   \<and> (\<not> meets_band row \<longrightarrow> classifyRow row = Neighbor)"
  by (simp add: classifyRow_def)

theorem classifyRow_neighbor_witness:
  "type (sample_row ''N'' 93 (Some (12 / 1000)) True True True neighbor) = neighbor
   \<and> classifyRow (sample_row ''N'' 93 (Some (12 / 1000)) True True True neighbor) = Neighbor
   \<and> \<not> meets_band (sample_row ''F'' 98 (Some (12 / 1000)) False True True opportunity)
   \<and> classifyRow (sample_row ''F'' 98 (Some (12 / 1000)) False True True opportunity) = Neighbor"
  using classifyRow_neighbor [of "sample_row ''N'' 93 (Some (12 / 1000)) True True True neighbor"]
    classifyRow_neighbor [of "sample_row ''F'' 98 (Some (12 / 1000)) False True True opportunity"]
  by (simp add: sample_row_def)

text \<open>
  C3. A row of type \<^verbatim>\<open>opportunity\<close> whose \<^verbatim>\<open>meets_band\<close> flag is true is classified
  \<^verbatim>\<open>opportunity\<close> when \<^verbatim>\<open>meets_delta\<close> and \<^verbatim>\<open>meets_credit\<close> both hold,
  \<^verbatim>\<open>candidate_strong\<close> when exactly one of the two holds, and \<^verbatim>\<open>candidate\<close> when neither
  holds.
\<close>

theorem classifyRow_opportunity_kind:
  assumes "type row = opportunity" and "meets_band row"
  shows "(meets_delta row \<and> meets_credit row \<longrightarrow> classifyRow row = Opportunity)
    \<and> (meets_delta row \<noteq> meets_credit row \<longrightarrow> classifyRow row = Candidate_strong)
    \<and> (\<not> meets_delta row \<and> \<not> meets_credit row \<longrightarrow> classifyRow row = Candidate)"
  using assms by (auto simp: classifyRow_def)

theorem classifyRow_opportunity_kind_witness:
  "classifyRow (sample_row ''A'' 96 None True True True opportunity) = Opportunity
   \<and> classifyRow (sample_row ''A'' 96 None True True False opportunity) = Candidate_strong
   \<and> classifyRow (sample_row ''A'' 96 None True False True opportunity) = Candidate_strong
   \<and> classifyRow (sample_row ''A'' 96 None True False False opportunity) = Candidate"
  using classifyRow_opportunity_kind [of "sample_row ''A'' 96 None True True True opportunity"]
    classifyRow_opportunity_kind [of "sample_row ''A'' 96 None True True False opportunity"]
    classifyRow_opportunity_kind [of "sample_row ''A'' 96 None True False True opportunity"]
    classifyRow_opportunity_kind [of "sample_row ''A'' 96 None True False False opportunity"]
  by (simp add: sample_row_def)

subsection \<open>Score symbols\<close>

text \<open>
  C4. The score symbol is the star exactly for the classification \<^verbatim>\<open>best\<close>, the check
  mark exactly for \<^verbatim>\<open>opportunity\<close>, and the empty string for \<^verbatim>\<open>candidate_strong\<close>,
  \<^verbatim>\<open>candidate\<close> and \<^verbatim>\<open>neighbor\<close>; every row of the table carries the symbol of its final
  classification.
\<close>

theorem score_symbols:
  "(scoreForClassification c = star_symbol \<longleftrightarrow> c = Best)
   \<and> (scoreForClassification c = check_symbol \<longleftrightarrow> c = Opportunity)
   \<and> (c = Candidate_strong \<or> c = Candidate \<or> c = Neighbor \<longrightarrow> scoreForClassification c = [])
   \<and> (\<forall>r \<in> set (rowsWithScore sn data). score r = scoreForClassification (classification r))"
proof -
  have "\<forall>r \<in> set (rowsWithScore sn data). score r = scoreForClassification (classification r)"
    by (auto simp: rowsWithScore_def Let_def promote_score)
  moreover have "(scoreForClassification c = star_symbol \<longleftrightarrow> c = Best)
   \<and> (scoreForClassification c = check_symbol \<longleftrightarrow> c = Opportunity)
   \<and> (c = Candidate_strong \<or> c = Candidate \<or> c = Neighbor \<longrightarrow> scoreForClassification c = [])"
    using symbol_facts by (cases c) auto
  ultimately show ?thesis by blast
qed

theorem score_symbols_witness:
  "rowsWithScore True sample_chain ! 3 \<in> set (rowsWithScore True sample_chain)
   \<and> classification (rowsWithScore True sample_chain ! 3) = Best
   \<and> score (rowsWithScore True sample_chain ! 3) = star_symbol"
proof -
  have m: "rowsWithScore True sample_chain ! 3 \<in> set (rowsWithScore True sample_chain)"
    by (rule nth_mem) (simp add: rowsWithScore_length sample_nth(1))
  from score_symbols [of Best True sample_chain] m
  have "score (rowsWithScore True sample_chain ! 3)
          = scoreForClassification (classification (rowsWithScore True sample_chain ! 3))"
    by blast
  with m show ?thesis by (simp add: sample_nth(4))
qed

subsection \<open>Promotion of the best full matches\<close>

text \<open>
  C1. After the first pass, \<^verbatim>\<open>maxCredit\<close> is the greatest credit among the rows
  classified \<^verbatim>\<open>opportunity\<close> (those whose credit is present; it is \<^verbatim>\<open>null\<close> when there
  is none). If no row is classified \<^verbatim>\<open>opportunity\<close>, no row becomes \<^verbatim>\<open>best\<close>. Otherwise
  a row becomes \<^verbatim>\<open>best\<close> exactly when it was classified \<^verbatim>\<open>opportunity\<close> and its credit
  equals that maximum; every other row keeps its first-pass classification. Every
  \<^verbatim>\<open>best\<close> row is a full match, and ties are not broken: two rows of one expiration can
  both be \<^verbatim>\<open>best\<close>.
\<close>

theorem best_promotion:
  "(let p = prelim sn data; rows = rowsWithScore sn data in
      length rows = length p
    \<and> (maxCredit p = None \<longleftrightarrow>
         (\<forall>q \<in> set p. classification q = Opportunity \<longrightarrow> credit_pct q = None))
    \<and> (\<forall>m. maxCredit p = Some m \<longrightarrow>
         (\<exists>q \<in> set p. classification q = Opportunity \<and> credit_pct q = Some m)
         \<and> (\<forall>q \<in> set p. \<forall>c. classification q = Opportunity \<and> credit_pct q = Some c \<longrightarrow> c \<le> m))
    \<and> (\<forall>i < length p.
          (classification (rows ! i) = Best \<longleftrightarrow>
             classification (p ! i) = Opportunity
             \<and> (\<exists>m. maxCredit p = Some m \<and> credit_pct (p ! i) = Some m))
        \<and> (classification (rows ! i) \<noteq> Best \<longrightarrow>
             classification (rows ! i) = classification (p ! i))
        \<and> option_ticker (rows ! i) = option_ticker (p ! i)
        \<and> credit_pct (rows ! i) = credit_pct (p ! i))
    \<and> ((\<forall>q \<in> set p. classification q \<noteq> Opportunity) \<longrightarrow>
         (\<forall>r \<in> set rows. classification r \<noteq> Best))
    \<and> (\<forall>r \<in> set rows. classification r = Best \<longrightarrow>
          type r = opportunity \<and> meets_band r \<and> meets_delta r \<and> meets_credit r))
   \<and> (\<exists>d i j. i < j \<and> j < length (rowsWithScore True d)
         \<and> classification (rowsWithScore True d ! i) = Best
         \<and> classification (rowsWithScore True d ! j) = Best)"
proof -
  define p where "p = prelim sn data"
  define rows where "rows = rowsWithScore sn data"
  have len: "length rows = length p"
    by (simp add: rows_def p_def rowsWithScore_length)
  have nth: "rows ! i = promote (maxCredit p) (p ! i)" if "i < length p" for i
    using that by (simp add: rows_def p_def rowsWithScore_nth)
  have nb: "classification (p ! i) \<noteq> Best" if "i < length p" for i
    using that prelim_member(1) [of "p ! i" sn data] by (simp add: p_def)
  have a: "maxCredit p = None \<longleftrightarrow>
         (\<forall>q \<in> set p. classification q = Opportunity \<longrightarrow> credit_pct q = None)"
    by (rule maxCredit_None_iff)
  have b: "\<forall>m. maxCredit p = Some m \<longrightarrow>
         (\<exists>q \<in> set p. classification q = Opportunity \<and> credit_pct q = Some m)
         \<and> (\<forall>q \<in> set p. \<forall>c. classification q = Opportunity \<and> credit_pct q = Some c \<longrightarrow> c \<le> m)"
    using maxCredit_is_max by blast
  have c: "\<forall>i < length p.
          (classification (rows ! i) = Best \<longleftrightarrow>
             classification (p ! i) = Opportunity
             \<and> (\<exists>m. maxCredit p = Some m \<and> credit_pct (p ! i) = Some m))
        \<and> (classification (rows ! i) \<noteq> Best \<longrightarrow>
             classification (rows ! i) = classification (p ! i))
        \<and> option_ticker (rows ! i) = option_ticker (p ! i)
        \<and> credit_pct (rows ! i) = credit_pct (p ! i)"
  proof (intro allI impI)
    fix i assume i: "i < length p"
    show "(classification (rows ! i) = Best \<longleftrightarrow>
             classification (p ! i) = Opportunity
             \<and> (\<exists>m. maxCredit p = Some m \<and> credit_pct (p ! i) = Some m))
        \<and> (classification (rows ! i) \<noteq> Best \<longrightarrow>
             classification (rows ! i) = classification (p ! i))
        \<and> option_ticker (rows ! i) = option_ticker (p ! i)
        \<and> credit_pct (rows ! i) = credit_pct (p ! i)"
      using nb [OF i] by (auto simp: nth [OF i] promote_classification)
  qed
  have d: "(\<forall>q \<in> set p. classification q \<noteq> Opportunity) \<longrightarrow>
         (\<forall>r \<in> set rows. classification r \<noteq> Best)"
  proof (intro impI ballI)
    fix r assume no: "\<forall>q \<in> set p. classification q \<noteq> Opportunity" and r: "r \<in> set rows"
    from r obtain i where i: "i < length p" and ri: "r = rows ! i"
      using len by (metis in_set_conv_nth)
    have "classification (p ! i) \<noteq> Opportunity" using no i by simp
    then show "classification r \<noteq> Best" using c i ri by blast
  qed
  have e: "\<forall>r \<in> set rows. classification r = Best \<longrightarrow>
          type r = opportunity \<and> meets_band r \<and> meets_delta r \<and> meets_credit r"
  proof (intro impI ballI)
    fix r assume r: "r \<in> set rows" and best: "classification r = Best"
    from r obtain i where i: "i < length p" and ri: "r = rows ! i"
      using len by (metis in_set_conv_nth)
    have "classification (p ! i) = Opportunity" using c i ri best by blast
    moreover have "p ! i \<in> set (prelim sn data)" using i by (simp add: p_def)
    ultimately have "type (p ! i) = opportunity \<and> meets_band (p ! i) \<and> meets_delta (p ! i)
        \<and> meets_credit (p ! i)"
      using prelim_member(2) by blast
    then show "type r = opportunity \<and> meets_band r \<and> meets_delta r \<and> meets_credit r"
      by (simp add: ri nth [OF i])
  qed
  have two: "\<exists>d i j. i < j \<and> j < length (rowsWithScore True d)
         \<and> classification (rowsWithScore True d ! i) = Best
         \<and> classification (rowsWithScore True d ! j) = Best"
  proof (intro exI conjI)
    show "(1::nat) < 3" by simp
    show "3 < length (rowsWithScore True sample_chain)"
      by (simp add: rowsWithScore_length sample_nth(1))
    have "classification (rowsWithScore True sample_chain ! 1)
            = map classification (rowsWithScore True sample_chain) ! 1"
      by (simp add: rowsWithScore_length sample_nth(1))
    then show "classification (rowsWithScore True sample_chain ! 1) = Best"
      unfolding sample_classes(2) by simp
    show "classification (rowsWithScore True sample_chain ! 3) = Best"
      by (rule sample_nth(4))
  qed
  from len a b c d e two show ?thesis
    unfolding Let_def p_def [symmetric] rows_def [symmetric] by blast
qed

theorem best_promotion_witness:
  "1 < length (prelim True sample_chain)
   \<and> classification (prelim True sample_chain ! 1) = Opportunity
   \<and> maxCredit (prelim True sample_chain) = Some (3 / 250)
   \<and> credit_pct (prelim True sample_chain ! 1) = Some (3 / 250)
   \<and> classification (rowsWithScore True sample_chain ! 1) = Best"
proof -
  have h: "1 < length (prelim True sample_chain)"
    "classification (prelim True sample_chain ! 1) = Opportunity"
    "maxCredit (prelim True sample_chain) = Some (3 / 250)"
    "credit_pct (prelim True sample_chain ! 1) = Some (3 / 250)"
    using sample_nth sample_classes(6) by simp_all
  from best_promotion [of True sample_chain]
  have "\<forall>i < length (prelim True sample_chain).
          (classification (rowsWithScore True sample_chain ! i) = Best \<longleftrightarrow>
             classification (prelim True sample_chain ! i) = Opportunity
             \<and> (\<exists>m. maxCredit (prelim True sample_chain) = Some m
                  \<and> credit_pct (prelim True sample_chain ! i) = Some m))"
    unfolding Let_def by blast
  with h have "classification (rowsWithScore True sample_chain ! 1) = Best" by blast
  with h show ?thesis by blast
qed

subsection \<open>Order of the displayed rows\<close>

lemma rowsWithScore_strikes:
  "map strike_price (rowsWithScore sn data) = map strike_price (sorted_rows sn data)"
  by (simp add: rowsWithScore_def prelim_def Let_def)

lemma rowsWithScore_tickers:
  "map option_ticker (rowsWithScore sn data) = map option_ticker (sorted_rows sn data)"
  by (simp add: rowsWithScore_def prelim_def Let_def)

lemma rowsWithScore_equal_strike:
  "map option_ticker (filter (\<lambda>r. strike_price r = k) (rowsWithScore sn data))
     = map option_ticker (filter (\<lambda>r. strike_price r = k) (sorted_rows sn data))"
  by (simp add: rowsWithScore_def prelim_def Let_def filter_map comp_def)

text \<open>
  C8. The rows of the main table (opportunities merged with the neighbors shown) are in
  ascending order of strike, and so are the incomplete rows; both are the rows of the
  response, rearranged, and rows of equal strike keep their order.
\<close>

theorem strike_order:
  "sorted (map strike_price (rowsWithScore sn data))
   \<and> mset (map option_ticker (rowsWithScore sn data))
       = mset (map option_ticker (baseRows sn data))
   \<and> map option_ticker (filter (\<lambda>r. strike_price r = k) (rowsWithScore sn data))
       = map option_ticker (filter (\<lambda>r. strike_price r = k) (baseRows sn data))
   \<and> sorted (map strike_price (incompleteSorted data))
   \<and> mset (incompleteSorted data) = mset (incomplete data)
   \<and> filter (\<lambda>r. strike_price r = k) (incompleteSorted data)
       = filter (\<lambda>r. strike_price r = k) (incomplete data)"
proof -
  have a: "sorted (map strike_price (rowsWithScore sn data))"
    by (simp only: rowsWithScore_strikes sorted_rows_def sorted_sort_key)
  have "mset (sorted_rows sn data) = mset (baseRows sn data)"
    by (simp add: sorted_rows_def)
  then have b: "mset (map option_ticker (rowsWithScore sn data))
       = mset (map option_ticker (baseRows sn data))"
    by (simp only: rowsWithScore_tickers mset_map)
  have c: "map option_ticker (filter (\<lambda>r. strike_price r = k) (rowsWithScore sn data))
       = map option_ticker (filter (\<lambda>r. strike_price r = k) (baseRows sn data))"
    by (simp only: rowsWithScore_equal_strike sorted_rows_def sort_key_stable)
  have d: "sorted (map strike_price (incompleteSorted data))"
    by (simp only: incompleteSorted_def sorted_sort_key)
  have e: "mset (incompleteSorted data) = mset (incomplete data)"
    by (simp add: incompleteSorted_def)
  have f: "filter (\<lambda>r. strike_price r = k) (incompleteSorted data)
       = filter (\<lambda>r. strike_price r = k) (incomplete data)"
    by (simp only: incompleteSorted_def sort_key_stable)
  from a b c d e f show ?thesis by blast
qed

subsection \<open>The empty chain\<close>

text \<open>
  C7. The display stage yields a result for every response, one row per input row. For
  a response without opportunities, neighbors and incomplete rows it yields the empty
  table and the empty incomplete list; and whenever there is no full match,
  \<^verbatim>\<open>maxCredit\<close> is \<^verbatim>\<open>null\<close> and no row is promoted.
\<close>

theorem display_total_on_empty:
  "(opportunities data = [] \<and> neighbors data = [] \<and> incomplete data = [] \<longrightarrow>
      rowsWithScore sn data = [] \<and> incompleteSorted data = []
      \<and> maxCredit (prelim sn data) = None
      \<and> \<not> hasRows sn data \<and> \<not> hasIncomplete data)
   \<and> (fullMatches (prelim sn data) = [] \<longrightarrow>
        maxCredit (prelim sn data) = None
        \<and> map classification (rowsWithScore sn data) = map classification (prelim sn data))
   \<and> length (rowsWithScore sn data) = length (baseRows sn data)
   \<and> length (incompleteSorted data) = length (incomplete data)"
proof -
  have a: "opportunities data = [] \<and> neighbors data = [] \<and> incomplete data = [] \<longrightarrow>
      rowsWithScore sn data = [] \<and> incompleteSorted data = []
      \<and> maxCredit (prelim sn data) = None
      \<and> \<not> hasRows sn data \<and> \<not> hasIncomplete data"
    by (simp add: hasRows_def hasIncomplete_def rowsWithScore_def prelim_def sorted_rows_def
        baseRows_def incompleteSorted_def maxCredit_def fullMatches_def Let_def)
  have b: "fullMatches (prelim sn data) = [] \<longrightarrow>
        maxCredit (prelim sn data) = None
        \<and> map classification (rowsWithScore sn data) = map classification (prelim sn data)"
  proof
    assume e: "fullMatches (prelim sn data) = []"
    then have n: "maxCredit (prelim sn data) = None" by (simp add: maxCredit_None)
    have "map classification (rowsWithScore sn data) = map classification (prelim sn data)"
      by (simp add: rowsWithScore_def Let_def n promote_classification)
    with n show "maxCredit (prelim sn data) = None
        \<and> map classification (rowsWithScore sn data) = map classification (prelim sn data)"
      by simp
  qed
  have c: "length (rowsWithScore sn data) = length (baseRows sn data)"
    by (simp add: rowsWithScore_length prelim_length)
  have d: "length (incompleteSorted data) = length (incomplete data)"
    by (simp add: incompleteSorted_def)
  from a b c d show ?thesis by blast
qed

theorem display_total_on_empty_witness:
  "opportunities (sample_response ''2025-11-28'' [] [] []) = []
   \<and> neighbors (sample_response ''2025-11-28'' [] [] []) = []
   \<and> incomplete (sample_response ''2025-11-28'' [] [] []) = []
   \<and> rowsWithScore True (sample_response ''2025-11-28'' [] [] []) = []
   \<and> incompleteSorted (sample_response ''2025-11-28'' [] [] []) = []
   \<and> maxCredit (prelim True (sample_response ''2025-11-28'' [] [] [])) = None"
  using display_total_on_empty [of "sample_response ''2025-11-28'' [] [] []" True]
  by (simp add: sample_response_def)

subsection \<open>Determinism\<close>

text \<open>
  C9. The rows of the table (first-pass classification, promotion, score) are a
  function of the stored response and of the \<^verbatim>\<open>showNeighbors\<close> setting: no other state
  variable, in particular none that holds a clock reading, changes them. The expiration
  dates requested are a function of the base date and the count of the query alone, and
  the records and the error stored by \<^verbatim>\<open>fetchAll\<close> do not depend on the clock or on the
  state before the call.
\<close>

theorem pipeline_deterministic:
  "(showNeighbors (controls st) = showNeighbors (controls st') \<longrightarrow>
      table_rows st data = table_rows st' data
      \<and> fst (snd (expiration_block st data)) = fst (snd (expiration_block st' data)))
   \<and> (expiration q = expiration q' \<and> numExpirations q = numExpirations q' \<longrightarrow>
        requested_expirations num q = requested_expirations num q')
   \<and> (effective_query st params = effective_query st' params' \<longrightarrow>
        records (fetchAll num world now st params) = records (fetchAll num world now' st' params')
        \<and> error (fetchAll num world now st params) = error (fetchAll num world now' st' params'))"
proof -
  have a: "showNeighbors (controls st) = showNeighbors (controls st') \<longrightarrow>
      table_rows st data = table_rows st' data
      \<and> fst (snd (expiration_block st data)) = fst (snd (expiration_block st' data))"
    by (simp add: table_rows_def expiration_block_def)
  have b: "expiration q = expiration q' \<and> numExpirations q = numExpirations q' \<longrightarrow>
        requested_expirations num q = requested_expirations num q'"
    by (simp add: requested_expirations_def)
  have c: "effective_query st params = effective_query st' params' \<longrightarrow>
        records (fetchAll num world now st params) = records (fetchAll num world now' st' params')
        \<and> error (fetchAll num world now st params) = error (fetchAll num world now' st' params')"
    by (simp add: fetchAll_def Let_def split: sum.splits)
  from a b c show ?thesis by blast
qed

theorem pipeline_deterministic_witness:
  "showNeighbors (controls sample_state)
     = showNeighbors (controls (sample_state\<lparr>lastUpdated := Some 1764288000000,
          countdown := Some 7, expandedIncomplete := Some ''2025-11-28''\<rparr>))
   \<and> table_rows sample_state sample_chain
       = table_rows (sample_state\<lparr>lastUpdated := Some 1764288000000,
          countdown := Some 7, expandedIncomplete := Some ''2025-11-28''\<rparr>) sample_chain
   \<and> isExpanded sample_state sample_chain
       \<noteq> isExpanded (sample_state\<lparr>lastUpdated := Some 1764288000000,
          countdown := Some 7, expandedIncomplete := Some ''2025-11-28''\<rparr>) sample_chain
   \<and> requested_expirations decimalNumber sample_query
       = requested_expirations decimalNumber (sample_query\<lparr>ticker_q := ''MSFT'', deltaMax := 1 / 4\<rparr>)
   \<and> records (fetchAll decimalNumber sample_world 0 sample_state (Some sample_query))
       = records (fetchAll decimalNumber sample_world 86400000
            (sample_state\<lparr>lastUpdated := Some 1764288000000\<rparr>) (Some sample_query))"
  using pipeline_deterministic [of sample_state
      "sample_state\<lparr>lastUpdated := Some 1764288000000,
          countdown := Some 7, expandedIncomplete := Some ''2025-11-28''\<rparr>"
      sample_chain sample_query "sample_query\<lparr>ticker_q := ''MSFT'', deltaMax := 1 / 4\<rparr>"
      decimalNumber "Some sample_query" "Some sample_query" sample_world 0 86400000]
    pipeline_deterministic [of sample_state "sample_state\<lparr>lastUpdated := Some 1764288000000\<rparr>"
      sample_chain sample_query sample_query
      decimalNumber "Some sample_query" "Some sample_query" sample_world 0 86400000]
  by (simp add: effective_query_def isExpanded_def sample_state_def sample_chain_def
      sample_response_def)

subsection \<open>The multi-expiration fetch\<close>

lemma sample_expirations:
  "buildExpirationList decimalNumber ''2025-11-28'' 3
     = [''2025-11-28'', ''2025-12-05'', ''2025-12-12'']"
proof -
  have sp: "split ''2025-11-28'' CHR ''-'' = [''2025'', ''11'', ''28'']"
    by (simp add: split_def)
  have n: "decimalNumber ''2025'' = Finite 2025" "decimalNumber ''11'' = Finite 11"
    "decimalNumber ''28'' = Finite 28"
    by (simp_all add: decimalNumber_def is_digit_def digits_value_def digit_of_def)
  have b: "Date_UTC (Finite 2025) (minus_one (Finite 11)) (Finite 28) = Some 1764288000000"
    by (simp add: Date_UTC_def minus_one_def MakeFullYear_def ToIntegerOrInfinity_def MakeDay_def
        MakeDate_def TimeClip_def DayFromYear_def DaysInYear_def month_start_def msPerDay_def)
  have e: "expiration_at (Some 1764288000000) 0 = ''2025-11-28''"
    "expiration_at (Some 1764288000000) (Suc 0) = ''2025-12-05''"
    "expiration_at (Some 1764288000000) 2 = ''2025-12-12''"
    by (simp_all add: expiration_at_def setUTCDate_def getUTCDate_def getUTCFullYear_def
        getUTCMonth_def DateFromTime_def MonthFromTime_def DayWithinYear_def InLeapYear_def
        YearFromTime_def Day_def TimeWithinDay_def msPerDay_def year_estimate_def DayFromYear_def
        DaysInYear_def month_start_def MakeDay_def MakeDate_def TimeClip_def
        ToIntegerOrInfinity_def String_def string_of_int_def string_of_nat.simps digit_char_def
        padStart_def Let_def)
  have u: "[0..<3] = [0, Suc 0, 2]" by (simp add: upt_rec)
  show ?thesis
    by (simp add: buildExpirationList_def sp n truthy_def b u e)
qed

lemma rejections_empty:
  "rejections ps = [] \<longleftrightarrow> (\<forall>x \<in> set ps. \<not> isl (snd x))"
  by (induction ps) (auto simp: rejections_def split: sum.splits)

lemma Promise_all_rejected:
  assumes "x \<in> set ps" and "isl (snd x)"
  shows "isl (Promise_all ps)"
proof -
  from assms have "rejections ps \<noteq> []" using rejections_empty by blast
  then show ?thesis by (cases "rejections ps") (simp_all add: Promise_all_def)
qed

lemma Promise_all_fulfilled:
  assumes "\<forall>x \<in> set ps. \<not> isl (snd x)"
  shows "Promise_all ps = Inr (map (projr \<circ> snd) ps)"
proof -
  have "fulfilments ps = map (projr \<circ> snd) ps" using assms
    by (induction ps) (auto simp: fulfilments_def split: sum.splits)
  moreover have "rejections ps = []" using assms rejections_empty by blast
  ultimately show ?thesis by (simp add: Promise_all_def)
qed

text \<open>
  C6. When the request for one of the expiration dates of a query fails (the fetch is
  rejected, the status is not ok, or the body does not parse), \<^verbatim>\<open>fetchAll\<close> keeps no
  result of the batch: the stored list of records becomes empty and an error is set,
  whatever the other requests answered.
\<close>

theorem fetchAll_all_or_nothing:
  assumes "q = effective_query st params"
    and "expDate \<in> set (buildExpirationList num (expiration q) (numExpirations q))"
    and "isl (request_outcome (snd (world q expDate)))"
  shows "records (fetchAll num world now st params) = []
    \<and> error (fetchAll num world now st params) \<noteq> None
    \<and> \<not> loading (fetchAll num world now st params)
    \<and> lastUpdated (fetchAll num world now st params) = lastUpdated st"
proof -
  define promises where
    "promises = map (\<lambda>expDate. map_prod id request_outcome (world q expDate))
                  (requested_expirations num q)"
  have "map_prod id request_outcome (world q expDate) \<in> set promises"
    using assms(2) by (simp add: promises_def requested_expirations_def)
  moreover have "isl (snd (map_prod id request_outcome (world q expDate)))"
    using assms(3) by simp
  ultimately have "isl (Promise_all promises)" by (rule Promise_all_rejected)
  then obtain e where "Promise_all promises = Inl e" by (cases "Promise_all promises") auto
  then show ?thesis
    by (simp add: fetchAll_def Let_def assms(1) [symmetric] promises_def [symmetric])
qed

theorem fetchAll_all_or_nothing_witness:
  "''2025-12-05'' \<in> set (buildExpirationList decimalNumber (expiration sample_query)
                            (numExpirations sample_query))
   \<and> isl (request_outcome (snd (sample_world sample_query ''2025-12-05'')))
   \<and> \<not> isl (request_outcome (snd (sample_world sample_query ''2025-11-28'')))
   \<and> \<not> isl (request_outcome (snd (sample_world sample_query ''2025-12-12'')))
   \<and> records sample_state \<noteq> []
   \<and> records (fetchAll decimalNumber sample_world 0 sample_state (Some sample_query)) = []
   \<and> error (fetchAll decimalNumber sample_world 0 sample_state (Some sample_query)) \<noteq> None"
proof -
  have q: "sample_query = effective_query sample_state (Some sample_query)"
    by (simp add: effective_query_def)
  have m: "''2025-12-05'' \<in> set (buildExpirationList decimalNumber (expiration sample_query)
                            (numExpirations sample_query))"
    by (simp add: sample_query_def sample_expirations)
  have f: "isl (request_outcome (snd (sample_world sample_query ''2025-12-05'')))"
    by (simp add: sample_world_def request_outcome_def)
  have g: "\<not> isl (request_outcome (snd (sample_world sample_query ''2025-11-28'')))"
    "\<not> isl (request_outcome (snd (sample_world sample_query ''2025-12-12'')))"
    by (simp_all add: sample_world_def request_outcome_def)
  have r: "records sample_state \<noteq> []" by (simp add: sample_state_def)
  from fetchAll_all_or_nothing [where q = sample_query and st = sample_state
      and params = "Some sample_query" and expDate = "''2025-12-05''" and num = decimalNumber
      and world = sample_world and now = 0] q m f g r
  show ?thesis by blast
qed

subsection \<open>Years and day numbers\<close>



















subsection \<open>Calendar dates and day numbers\<close>








subsection \<open>Strings of dates\<close>



lemma split_from_parts:
  "p \<in> set (split_from c acc s) \<Longrightarrow> c \<notin> set acc \<Longrightarrow> c \<notin> set p"
proof (induction s arbitrary: acc)
  case Nil
  then show ?case by simp
next
  case (Cons x xs)
  show ?case
  proof (cases "x = c")
    case True
    with Cons.prems have "p = rev acc \<or> p \<in> set (split_from c [] xs)" by simp
    then show ?thesis
    proof
      assume "p = rev acc"
      then show ?thesis using Cons.prems(2) by simp
    next
      assume "p \<in> set (split_from c [] xs)"
      then show ?thesis by (rule Cons.IH) simp
    qed
  next
    case False
    with Cons.prems have "p \<in> set (split_from c (x # acc) xs)" by simp
    then show ?thesis by (rule Cons.IH) (use False Cons.prems(2) in auto)
  qed
qed

lemma split_parts: "p \<in> set (split s c) \<Longrightarrow> c \<notin> set p"
  unfolding split_def by (erule split_from_parts) simp






subsection \<open>Dates of the generator\<close>









lemma String_date:
  "String (Some yy) @ ''-'' @ padStart (String (Some (mm - 1 + 1))) 2 CHR ''0'' @ ''-''
      @ padStart (String (Some dd)) 2 CHR ''0'' = date_string (yy, mm, dd)"
  by (simp add: String_def date_string.simps)


subsection \<open>The expiration generator\<close>

lemma three_parts: "length xs = 3 \<longleftrightarrow> (\<exists>a b c. xs = [a, b, c])"
  by (auto simp: eval_nat_numeral length_Suc_conv)

lemma buildExpirationList_other:
  "length (split base CHR ''-'') \<noteq> 3 \<Longrightarrow>
     buildExpirationList num base n = replicate n base"
proof -
  assume a: "length (split base CHR ''-'') \<noteq> 3"
  have "(case xs of [yStr, mStr, dStr] \<Rightarrow> f yStr mStr dStr | _ \<Rightarrow> g) = g"
    if "length xs \<noteq> 3" for xs :: "string list" and f and g :: "string list"
    using that by (auto split: list.splits)
  from this[OF a] show ?thesis
    by (simp add: buildExpirationList_def map_replicate_const)
qed

lemma buildExpirationList_three:
  assumes "split base CHR ''-'' = [yStr, mStr, dStr]"
  shows "buildExpirationList num base n =
     (if \<not> truthy (num yStr) \<or> \<not> truthy (num mStr) \<or> \<not> truthy (num dStr)
      then replicate n base
      else map (expiration_at (Date_UTC (num yStr) (minus_one (num mStr)) (num dStr))) [0..<n])"
  by (simp add: buildExpirationList_def assms Let_def map_replicate_const)

lemma buildExpirationList_length: "length (buildExpirationList num base n) = n"
proof (cases "length (split base CHR ''-'') = 3")
  case True
  then obtain a b c where abc: "split base CHR ''-'' = [a, b, c]"
    unfolding three_parts by blast
  show ?thesis by (simp add: buildExpirationList_three[OF abc])
next
  case False
  then show ?thesis by (simp add: buildExpirationList_other)
qed

lemma not_positive_falsy:
  "\<not> is_negative v \<Longrightarrow> \<not> is_positive v \<Longrightarrow> \<not> truthy v"
  by (cases v) (auto simp: is_negative_def is_positive_def truthy_def)

text \<open>
  C10. For every base string and every count \<open>n\<close>, \<^verbatim>\<open>buildExpirationList\<close> returns a
  list of exactly \<open>n\<close> strings; the function has no failing operation. When the base
  does not split into three pieces at the dashes, or when one of its pieces is not read
  as a positive number, the result is the base itself, \<open>n\<close> times. (A piece holds no
  dash, and \<^verbatim>\<open>Number\<close> reads no string without a dash as a negative number: that is
  the one fact about \<^verbatim>\<open>Number\<close> assumed of \<open>num\<close> here.)
\<close>

theorem buildExpirationList_total:
  "length (buildExpirationList num base n) = n
   \<and> (length (split base CHR ''-'') \<noteq> 3 \<longrightarrow>
        buildExpirationList num base n = replicate n base)
   \<and> ((\<forall>s. CHR ''-'' \<notin> set s \<longrightarrow> \<not> is_negative (num s))
        \<and> (\<exists>p \<in> set (split base CHR ''-''). \<not> is_positive (num p)) \<longrightarrow>
        buildExpirationList num base n = replicate n base)"
proof -
  have c: "buildExpirationList num base n = replicate n base"
    if nn: "\<forall>s. CHR ''-'' \<notin> set s \<longrightarrow> \<not> is_negative (num s)"
      and p: "p \<in> set (split base CHR ''-'')" "\<not> is_positive (num p)" for p
  proof (cases "length (split base CHR ''-'') = 3")
    case True
    then obtain a b c where abc: "split base CHR ''-'' = [a, b, c]"
      unfolding three_parts by blast
    have "\<not> is_negative (num p)" using nn split_parts[OF p(1)] by blast
    then have "\<not> truthy (num p)" using p(2) by (rule not_positive_falsy)
    moreover have "p = a \<or> p = b \<or> p = c" using p(1) abc by simp
    ultimately show ?thesis by (auto simp: buildExpirationList_three[OF abc])
  next
    case False
    then show ?thesis by (rule buildExpirationList_other)
  qed
  show ?thesis using buildExpirationList_length buildExpirationList_other c by blast
qed

lemma decimalNumber_not_negative: "\<not> is_negative (decimalNumber s)"
  by (simp add: decimalNumber_def is_negative_def)

theorem buildExpirationList_total_witness:
  "length (split ''2025-1128'' CHR ''-'') \<noteq> 3
   \<and> buildExpirationList decimalNumber ''2025-1128'' 2 = [''2025-1128'', ''2025-1128'']
   \<and> split ''2025-00-28'' CHR ''-'' = [''2025'', ''00'', ''28'']
   \<and> \<not> is_positive (decimalNumber ''00'')
   \<and> buildExpirationList decimalNumber ''2025-00-28'' 2 = [''2025-00-28'', ''2025-00-28'']
   \<and> split ''2025-xx-28'' CHR ''-'' = [''2025'', ''xx'', ''28'']
   \<and> \<not> is_positive (decimalNumber ''xx'')
   \<and> buildExpirationList decimalNumber ''2025-xx-28'' 2 = [''2025-xx-28'', ''2025-xx-28'']"
proof -
  have nn: "\<forall>s. CHR ''-'' \<notin> set s \<longrightarrow> \<not> is_negative (decimalNumber s)"
    by (simp add: decimalNumber_not_negative)
  have s1: "length (split ''2025-1128'' CHR ''-'') \<noteq> 3" by (simp add: split_def)
  have s2: "split ''2025-00-28'' CHR ''-'' = [''2025'', ''00'', ''28'']" by (simp add: split_def)
  have s3: "split ''2025-xx-28'' CHR ''-'' = [''2025'', ''xx'', ''28'']" by (simp add: split_def)
  have z: "\<not> is_positive (decimalNumber ''00'')" "\<not> is_positive (decimalNumber ''xx'')"
    by (simp_all add: decimalNumber_def is_positive_def is_digit_def digits_value_def digit_of_def)
  have r: "replicate 2 b = [b, b]" for b :: string by (simp add: eval_nat_numeral)
  from buildExpirationList_total [of decimalNumber "''2025-1128''" 2] s1
  have "buildExpirationList decimalNumber ''2025-1128'' 2 = replicate 2 ''2025-1128''"
    by blast
  then have a: "buildExpirationList decimalNumber ''2025-1128'' 2 = [''2025-1128'', ''2025-1128'']"
    by (simp only: r)
  have "\<exists>p \<in> set (split ''2025-00-28'' CHR ''-''). \<not> is_positive (decimalNumber p)"
    using z(1) by (simp add: s2)
  with buildExpirationList_total [of decimalNumber "''2025-00-28''" 2] nn
  have "buildExpirationList decimalNumber ''2025-00-28'' 2 = replicate 2 ''2025-00-28''"
    by blast
  then have b: "buildExpirationList decimalNumber ''2025-00-28'' 2 = [''2025-00-28'', ''2025-00-28'']"
    by (simp only: r)
  have "\<exists>p \<in> set (split ''2025-xx-28'' CHR ''-''). \<not> is_positive (decimalNumber p)"
    using z(2) by (simp add: s3)
  with buildExpirationList_total [of decimalNumber "''2025-xx-28''" 2] nn
  have "buildExpirationList decimalNumber ''2025-xx-28'' 2 = replicate 2 ''2025-xx-28''"
    by blast
  then have c: "buildExpirationList decimalNumber ''2025-xx-28'' 2 = [''2025-xx-28'', ''2025-xx-28'']"
    by (simp only: r)
  from s1 a s2 z(1) b s3 z(2) c show ?thesis by blast
qed











end
